theory Spec2Isabelle
  imports Complex_Main
begin

section \<open>Values of the Python runtime\<close>

text \<open>
  A naive \<^verbatim>\<open>datetime\<close> is the number of microseconds since
  0001-01-01T00:00:00, a \<^verbatim>\<open>timedelta\<close> a (signed) number of microseconds and a
  \<^verbatim>\<open>date\<close> a day number. The \<^verbatim>\<open>datetime\<close> type stops at
  9999-12-31T23:59:59.999999, which is day 3652059 of the calendar; arithmetic that leaves
  the range raises \<^verbatim>\<open>OverflowError\<close>.

  A \<^verbatim>\<open>str\<close> is a list of code points. Every code point of the messages of this
  program is below 256, so one \<^typ>\<open>char\<close> holds it: \<open>CHR 0xE9\<close> is e with an acute
  accent, \<open>CHR 0xED\<close> is i with an acute accent.
\<close>

type_synonym datetime = int
type_synonym timedelta = int
type_synonym date = int

definition us_per_day :: int where
  "us_per_day = 86400000000"

definition datetime_max :: datetime where
  "datetime_max = 3652059 * us_per_day - 1"

definition valid_datetime :: "datetime \<Rightarrow> bool" where
  "valid_datetime t = (0 \<le> t \<and> t \<le> datetime_max)"

text \<open>\<^verbatim>\<open>timedelta(days=n)\<close>\<close>

definition timedelta_days :: "int \<Rightarrow> timedelta" where
  "timedelta_days n = n * us_per_day"

text \<open>
  \<^verbatim>\<open>td.days\<close>: a timedelta is normalised to days, seconds in \<open>[0, 86400)\<close> and
  microseconds in \<open>[0, 10^6)\<close>, so its days are the floor of the quotient.
\<close>

definition days :: "timedelta \<Rightarrow> int" where
  "days td = td div us_per_day"

text \<open>
  What a handler can raise. An \<^verbatim>\<open>HTTPException\<close> of the framework holds the status
  and the detail of the response.
\<close>

datatype error =
    HTTPException (status_code: nat) (detail: string)
  | ValidationError
  | OverflowError

text \<open>
  The constructor of the framework's exception,
  \<^verbatim>\<open>HTTPException(*args, detail="", status_code=None, headers=None, extra=None)\<close>.
  The status is a keyword: a positional argument is collected in \<^verbatim>\<open>args\<close> and is no
  status. The constructor sets \<^verbatim>\<open>self.status_code = status_code or self.status_code\<close>,
  so without the keyword (or with 0) the status is that of the class, 500. A detail that
  is not empty is kept as given; every call of this program gives one.
\<close>

definition HTTPException_init :: "int list \<Rightarrow> string \<Rightarrow> nat option \<Rightarrow> error" where
  "HTTPException_init args detail' status_code' =
     HTTPException
       (case status_code' of None \<Rightarrow> 500 | Some c \<Rightarrow> if c = 0 then 500 else c)
       detail'"

text \<open>\<^verbatim>\<open>dt + td\<close> on a datetime.\<close>

definition datetime_add :: "datetime \<Rightarrow> timedelta \<Rightarrow> error + datetime" where
  "datetime_add t td = (if valid_datetime (t + td) then Inr (t + td) else Inl OverflowError)"

text \<open>\<^verbatim>\<open>a - b\<close> on two datetimes.\<close>

definition datetime_sub :: "datetime \<Rightarrow> datetime \<Rightarrow> timedelta" where
  "datetime_sub a b = a - b"

section \<open>The models of \<^verbatim>\<open>app/models.py\<close>\<close>

text \<open>
  One record per mapped class, one field per attribute. Fields that several classes
  share (\<^verbatim>\<open>id\<close>, \<^verbatim>\<open>name\<close>) carry the class as a suffix. A transient object has no
  primary key yet, so \<^verbatim>\<open>id\<close> is optional; every stored row has one. The relationship
  attributes that a foreign key determines (\<^verbatim>\<open>Book.author\<close>, \<^verbatim>\<open>Author.books\<close>) are
  read through that key and are no fields of their own.
\<close>

record category =
  id_category :: int
  name_category :: string

record book =
  id_book :: "int option"
  isbn :: string
  title :: string
  description :: string
  year :: int
  language :: string
  author_id :: int
  categories :: "category list"

record author =
  id_author :: "int option"
  name_author :: string
  biography :: "string option"
  date_of_birth :: "date option"

record client =
  id_client :: "int option"
  name_client :: string
  email :: string

text \<open>A \<^verbatim>\<open>float\<close> fine is a real number; see \<open>return_loan\<close> for why that is exact.\<close>

record loan =
  id_loan :: "int option"
  book_id :: int
  client_id :: int
  loan_date :: datetime
  return_date :: "datetime option"
  fine :: "real option"

text \<open>The store: one table per class, rows in insertion order.\<close>

record db =
  authors :: "author list"
  books :: "book list"
  clients :: "client list"
  loans :: "loan list"

text \<open>\<^verbatim>\<open>Author.books\<close>, the other side of \<^verbatim>\<open>Book.author\<close>.\<close>

definition author_books :: "db \<Rightarrow> author \<Rightarrow> book list" where
  "author_books s a = filter (\<lambda>b. Some (author_id b) = id_author a) (books s)"

section \<open>The repositories\<close>

text \<open>
  \<^verbatim>\<open>app/repositories.py\<close> is not among the sources; the spec describes it. Every
  repository has \<^verbatim>\<open>list\<close>, \<^verbatim>\<open>get\<close>, \<^verbatim>\<open>add\<close> and \<^verbatim>\<open>update\<close>, and the book
  repository has \<^verbatim>\<open>search_by_title\<close> and \<^verbatim>\<open>is_book_available\<close> as well. Only the
  operations that the handlers below call are modelled.
\<close>

text \<open>
  Modelled from the spec: the key that \<^verbatim>\<open>add\<close> assigns. The spec says that the
  persisted entity has its id assigned; the key chosen here is the next one after the
  largest in the table.
\<close>

definition next_id :: "int option list \<Rightarrow> int" where
  "next_id ks = 1 + fold (\<lambda>k m. case k of None \<Rightarrow> m | Some i \<Rightarrow> max i m) ks 0"

text \<open>
  Modelled from the spec: \<^verbatim>\<open>BookRepository.list\<close>, all rows, an empty sequence if
  there are none.
\<close>

definition books_repo_list :: "db \<Rightarrow> book list" where
  "books_repo_list s = books s"

text \<open>
  Modelled from the spec: \<^verbatim>\<open>BookRepository.get\<close>, the entity with that id or an
  absent value; no error for a missing id.
\<close>

definition books_repo_get :: "db \<Rightarrow> int \<Rightarrow> book option" where
  "books_repo_get s i = find (\<lambda>b. id_book b = Some i) (books s)"

text \<open>
  Modelled from the spec: \<^verbatim>\<open>BookRepository.update\<close>, which persists an entity with
  mutated fields and returns it; the caller has checked that it exists.
\<close>

definition books_repo_update :: "db \<Rightarrow> book \<Rightarrow> book \<times> db" where
  "books_repo_update s b =
     (b, s\<lparr>books := map (\<lambda>r. if id_book r = id_book b then b else r) (books s)\<rparr>)"

text \<open>
  Modelled from the spec: \<^verbatim>\<open>BookRepository.search_by_title\<close>, all books whose title
  matches the given text. The spec leaves the matching itself open (substring or prefix,
  case), so it is the parameter \<open>matches\<close>.
\<close>

definition books_repo_search_by_title :: "(string \<Rightarrow> string \<Rightarrow> bool) \<Rightarrow> db \<Rightarrow> string \<Rightarrow> book list" where
  "books_repo_search_by_title matches s t = filter (\<lambda>b. matches t (title b)) (books s)"

text \<open>
  Modelled from the spec: \<^verbatim>\<open>BookRepository.is_book_available\<close>, whether the book
  currently has no outstanding (unreturned) loan.
\<close>

definition books_repo_is_book_available :: "db \<Rightarrow> int \<Rightarrow> bool" where
  "books_repo_is_book_available s i =
     (filter (\<lambda>l. book_id l = i \<and> return_date l = None) (loans s) = [])"

text \<open>Modelled from the spec: \<^verbatim>\<open>AuthorRepository.get\<close>, as for books.\<close>

definition authors_repo_get :: "db \<Rightarrow> int \<Rightarrow> author option" where
  "authors_repo_get s i = find (\<lambda>a. id_author a = Some i) (authors s)"

text \<open>Modelled from the spec: \<^verbatim>\<open>AuthorRepository.update\<close>, as for books.\<close>

definition authors_repo_update :: "db \<Rightarrow> author \<Rightarrow> author \<times> db" where
  "authors_repo_update s a =
     (a, s\<lparr>authors := map (\<lambda>r. if id_author r = id_author a then a else r) (authors s)\<rparr>)"

text \<open>Modelled from the spec: \<^verbatim>\<open>ClientRepository.get\<close>, as for books.\<close>

definition clients_repo_get :: "db \<Rightarrow> int \<Rightarrow> client option" where
  "clients_repo_get s i = find (\<lambda>c. id_client c = Some i) (clients s)"

text \<open>Modelled from the spec: \<^verbatim>\<open>LoanRepository.get\<close>, as for books.\<close>

definition loans_repo_get :: "db \<Rightarrow> int \<Rightarrow> loan option" where
  "loans_repo_get s i = find (\<lambda>l. id_loan l = Some i) (loans s)"

text \<open>
  Modelled from the spec: \<^verbatim>\<open>LoanRepository.add\<close>, which persists the entity and
  returns it with its id assigned.
\<close>

definition loans_repo_add :: "db \<Rightarrow> loan \<Rightarrow> loan \<times> db" where
  "loans_repo_add s l =
     (let l' = l\<lparr>id_loan := Some (next_id (map id_loan (loans s)))\<rparr>
      in (l', s\<lparr>loans := loans s @ [l']\<rparr>))"

text \<open>Modelled from the spec: \<^verbatim>\<open>LoanRepository.update\<close>, as for books.\<close>

definition loans_repo_update :: "db \<Rightarrow> loan \<Rightarrow> loan \<times> db" where
  "loans_repo_update s l =
     (l, s\<lparr>loans := map (\<lambda>r. if id_loan r = id_loan l then l else r) (loans s)\<rparr>)"

section \<open>The DTOs of \<^verbatim>\<open>app/dtos.py\<close>\<close>

text \<open>
  The framework decodes the request body with the DTO of the route before it calls the
  handler. A body is the set of keys that the client sent: one optional entry per
  attribute of the mapped class, relationships included (\<open>None\<close>: the key was not
  sent). A DTO drops the keys of the fields it excludes; unknown keys are ignored, not
  refused. A DTO that is not partial requires every field it keeps that has no default,
  and the request fails validation when one is missing. A partial DTO makes every field
  optional and transfers only the keys that were sent.
\<close>

record book_json =
  json_id_book :: "int option"
  json_isbn :: "string option"
  json_title :: "string option"
  json_description :: "string option"
  json_year :: "int option"
  json_language :: "string option"
  json_author_id :: "int option"
  json_author :: "author option"
  json_categories :: "category list option"

record author_json =
  json_id_author :: "int option"
  json_name_author :: "string option"
  json_biography :: "string option option"
  json_date_of_birth :: "date option option"
  json_books :: "book list option"

text \<open>
  \<^verbatim>\<open>DTOData[Author]\<close> and \<^verbatim>\<open>DTOData[Book]\<close>: the validated transfer data of a
  request body, one optional entry per field that the DTO of the route keeps (\<open>None\<close>:
  the key is not in the data). \<^verbatim>\<open>biography\<close> and \<^verbatim>\<open>date_of_birth\<close> are nullable, so
  an entry that is present may hold \<^verbatim>\<open>None\<close>.
\<close>

record author_data =
  data_name_author :: "string option"
  data_biography :: "string option option"
  data_date_of_birth :: "date option option"

record book_data =
  data_isbn :: "string option"
  data_title :: "string option"
  data_description :: "string option"
  data_year :: "int option"
  data_language :: "string option"
  data_author_id :: "int option"
  data_categories :: "category list option"

text \<open>
  \<^verbatim>\<open>DTOData.update_instance\<close>: \<^verbatim>\<open>setattr(instance, k, v)\<close> for every entry of the
  data; the instance is returned.
\<close>

definition update_instance_author :: "author_data \<Rightarrow> author \<Rightarrow> author" where
  "update_instance_author d a =
     a\<lparr>name_author := (case data_name_author d of None \<Rightarrow> name_author a | Some v \<Rightarrow> v),
       biography := (case data_biography d of None \<Rightarrow> biography a | Some v \<Rightarrow> v),
       date_of_birth := (case data_date_of_birth d of None \<Rightarrow> date_of_birth a | Some v \<Rightarrow> v)\<rparr>"

definition update_instance_book :: "book_data \<Rightarrow> book \<Rightarrow> book" where
  "update_instance_book d b =
     b\<lparr>isbn := (case data_isbn d of None \<Rightarrow> isbn b | Some v \<Rightarrow> v),
       title := (case data_title d of None \<Rightarrow> title b | Some v \<Rightarrow> v),
       description := (case data_description d of None \<Rightarrow> description b | Some v \<Rightarrow> v),
       year := (case data_year d of None \<Rightarrow> year b | Some v \<Rightarrow> v),
       language := (case data_language d of None \<Rightarrow> language b | Some v \<Rightarrow> v),
       author_id := (case data_author_id d of None \<Rightarrow> author_id b | Some v \<Rightarrow> v),
       categories := (case data_categories d of None \<Rightarrow> categories b | Some v \<Rightarrow> v)\<rparr>"

text \<open>
  \<^verbatim>\<open>AuthorUpdateDTO\<close>: \<^verbatim>\<open>exclude={"id", "books"}, partial=True\<close>.
\<close>

definition AuthorUpdateDTO :: "author_json \<Rightarrow> error + author_data" where
  "AuthorUpdateDTO j =
     Inr \<lparr>data_name_author = json_name_author j,
          data_biography = json_biography j,
          data_date_of_birth = json_date_of_birth j\<rparr>"

text \<open>
  \<^verbatim>\<open>BookWriteDTO\<close>: \<^verbatim>\<open>exclude={"id", "author"}\<close>, not partial. No column of
  \<^verbatim>\<open>Book\<close> that it keeps is nullable or has a default, and neither has the
  \<^verbatim>\<open>categories\<close> relationship.
\<close>

definition BookWriteDTO :: "book_json \<Rightarrow> error + book_data" where
  "BookWriteDTO j =
     (if json_isbn j = None \<or> json_title j = None \<or> json_description j = None
         \<or> json_year j = None \<or> json_language j = None \<or> json_author_id j = None
         \<or> json_categories j = None
      then Inl ValidationError
      else Inr \<lparr>data_isbn = json_isbn j,
                data_title = json_title j,
                data_description = json_description j,
                data_year = json_year j,
                data_language = json_language j,
                data_author_id = json_author_id j,
                data_categories = json_categories j\<rparr>)"

section \<open>The controllers of \<^verbatim>\<open>app/controlers.py\<close>\<close>

text \<open>
  A handler takes the store and its arguments and returns its response, an error or a
  value, together with the store it leaves. Every \<^verbatim>\<open>raise\<close> of the source has the
  form \<^verbatim>\<open>HTTPException(404, detail="...")\<close>: the number is positional and the detail
  a keyword. A handler that raises leaves the store as it
  found it. \<^verbatim>\<open>not x\<close> on an entity or \<^verbatim>\<open>None\<close> is true for \<^verbatim>\<open>None\<close> only, and on a
  list for the empty list only.
\<close>

subsection \<open>AuthorController\<close>

definition update_author :: "db \<Rightarrow> int \<Rightarrow> author_data \<Rightarrow> (error + author) \<times> db" where
  "update_author s i d =
     (case authors_repo_get s i of
        None \<Rightarrow> (Inl (HTTPException_init [404] ''El autor no existe'' None), s)
      | Some a \<Rightarrow>
          (let a' = update_instance_author d a
           in case authors_repo_update s a' of (r, s') \<Rightarrow> (Inr r, s')))"

subsection \<open>BookController\<close>

definition list_books :: "db \<Rightarrow> (error + book list) \<times> db" where
  "list_books s =
     (let bs = books_repo_list s
      in if bs = [] then (Inl (HTTPException_init [404] ''No hay libros disponibles'' None), s)
         else (Inr bs, s))"

definition update_book :: "db \<Rightarrow> int \<Rightarrow> book_data \<Rightarrow> (error + book) \<times> db" where
  "update_book s i d =
     (case books_repo_get s i of
        None \<Rightarrow> (Inl (HTTPException_init [404] ''El libro no existe'' None), s)
      | Some b \<Rightarrow>
          (let b' = update_instance_book d b
           in case books_repo_update s b' of (r, s') \<Rightarrow> (Inr r, s')))"

definition search_books :: "(string \<Rightarrow> string \<Rightarrow> bool) \<Rightarrow> db \<Rightarrow> string \<Rightarrow> (error + book list) \<times> db" where
  "search_books matches s t =
     (let bs = books_repo_search_by_title matches s t
      in if bs = []
         then (Inl (HTTPException_init [404] (''No se encontraron libros con ese t'' @ [CHR 0xED] @ ''tulo'') None), s)
         else (Inr bs, s))"

subsection \<open>LoanController\<close>

text \<open>
  \<^verbatim>\<open>Loan(book_id=..., client_id=..., loan_date=...)\<close>: the attributes that the
  constructor is not given are \<^verbatim>\<open>None\<close>.
\<close>

definition Loan :: "int \<Rightarrow> int \<Rightarrow> datetime \<Rightarrow> loan" where
  "Loan b c t =
     \<lparr>id_loan = None, book_id = b, client_id = c, loan_date = t, return_date = None, fine = None\<rparr>"

text \<open>
  \<open>now\<close> is what \<^verbatim>\<open>datetime.utcnow()\<close> returns during the request. The handler
  returns the object it has added, which by then carries its key.
\<close>

definition create_loan :: "db \<Rightarrow> int \<Rightarrow> int \<Rightarrow> datetime \<Rightarrow> (error + loan) \<times> db" where
  "create_loan s b c now =
     (let book = books_repo_get s b;
          client = clients_repo_get s c
      in if book = None \<or> client = None
         then (Inl (HTTPException_init [404] ''El libro o el cliente no existe'' None), s)
         else if books_repo_is_book_available s b
         then (Inl (HTTPException_init [400] (''No hay copias disponibles para pr'' @ [CHR 0xE9] @ ''stamo'') None), s)
         else (let loan_date = now;
                   loan = Loan b c loan_date
               in case loans_repo_add s loan of (l, s') \<Rightarrow> (Inr l, s')))"

text \<open>
  A datetime is always true in a condition, so \<^verbatim>\<open>if loan.return_date\<close> asks whether
  the attribute is set. The fine is \<^verbatim>\<open>days_overdue * 0.5\<close> in floating point: the
  day count of a difference of two datetimes is below \<open>2^53\<close> in absolute value and
  \<open>0.5\<close> is a power of two, so the conversion and the product are exact and the real
  number is the float.
\<close>

definition return_loan :: "db \<Rightarrow> int \<Rightarrow> datetime \<Rightarrow> (error + loan) \<times> db" where
  "return_loan s i now =
     (case loans_repo_get s i of
        None \<Rightarrow> (Inl (HTTPException_init [404] (''El pr'' @ [CHR 0xE9] @ ''stamo no existe'') None), s)
      | Some loan \<Rightarrow>
          if return_date loan \<noteq> None
          then (Inl (HTTPException_init [400] ''El libro ya ha sido devuelto'' None), s)
          else (let return_date' = now;
                    loan1 = loan\<lparr>return_date := Some return_date'\<rparr>
                in case datetime_add (loan_date loan1) (timedelta_days 7) of
                     Inl e \<Rightarrow> (Inl e, s)
                   | Inr due_date \<Rightarrow>
                       (let loan2 =
                              (if return_date' > due_date
                               then (let days_overdue = days (datetime_sub return_date' due_date)
                                     in loan1\<lparr>fine := Some (real_of_int days_overdue * 0.5)\<rparr>)
                               else loan1)
                        in case loans_repo_update s loan2 of (l, s') \<Rightarrow> (Inr l, s'))))"

subsection \<open>The routes that decode a body\<close>

text \<open>
  \<^verbatim>\<open>@patch("/{author_id:int}", dto=AuthorUpdateDTO)\<close> and
  \<^verbatim>\<open>@patch("/{book_id:int}", dto=BookWriteDTO)\<close>: the DTO of the decorator, then the
  handler.
\<close>

definition patch_author :: "db \<Rightarrow> int \<Rightarrow> author_json \<Rightarrow> (error + author) \<times> db" where
  "patch_author s i j =
     (case AuthorUpdateDTO j of Inl e \<Rightarrow> (Inl e, s) | Inr d \<Rightarrow> update_author s i d)"

definition patch_book :: "db \<Rightarrow> int \<Rightarrow> book_json \<Rightarrow> (error + book) \<times> db" where
  "patch_book s i j =
     (case BookWriteDTO j of Inl e \<Rightarrow> (Inl e, s) | Inr d \<Rightarrow> update_book s i d)"

section \<open>An invariant of the loans\<close>

text \<open>
  What the two loan handlers keep true of the store: a loan that has not been returned
  has no fine.
\<close>

definition unreturned_without_fine :: "db \<Rightarrow> bool" where
  "unreturned_without_fine s = list_all (\<lambda>l. return_date l = None \<longrightarrow> fine l = None) (loans s)"

section \<open>Sample data\<close>

definition t0 :: datetime where
  "t0 = 739000 * us_per_day"

definition sample_author :: author where
  "sample_author =
     \<lparr>id_author = Some 1, name_author = ''J. R. R. Tolkien'',
      biography = Some ''Philologist'', date_of_birth = Some 691000\<rparr>"

definition sample_book :: book where
  "sample_book =
     \<lparr>id_book = Some 1, isbn = ''9780261102217'', title = ''The Hobbit'',
      description = ''There and back again'', year = 1937, language = ''en'',
      author_id = 1, categories = []\<rparr>"

definition sample_client :: client where
  "sample_client = \<lparr>id_client = Some 1, name_client = ''Ana'', email = ''ana@example.org''\<rparr>"

definition open_loan :: loan where
  "open_loan =
     \<lparr>id_loan = Some 1, book_id = 1, client_id = 1, loan_date = t0,
      return_date = None, fine = None\<rparr>"

definition closed_loan :: loan where
  "closed_loan =
     \<lparr>id_loan = Some 1, book_id = 1, client_id = 1, loan_date = t0,
      return_date = Some (t0 + timedelta_days 9), fine = Some 1\<rparr>"

definition sample_db :: "loan list \<Rightarrow> db" where
  "sample_db ls =
     \<lparr>authors = [sample_author], books = [sample_book], clients = [sample_client], loans = ls\<rparr>"

text \<open>A substring match, one of the matchings that the title search may use.\<close>

definition title_contains :: "string \<Rightarrow> string \<Rightarrow> bool" where
  "title_contains q t = list_ex (\<lambda>k. take (length q) (drop k t) = q) [0..<Suc (length t)]"

text \<open>
  Two request bodies for \<^verbatim>\<open>PATCH /books/1\<close>: one that repeats every field of the
  sample book but names another author, one that holds a title only.
\<close>

definition full_book_json :: book_json where
  "full_book_json =
     \<lparr>json_id_book = None, json_isbn = Some ''9780261102217'', json_title = Some ''The Hobbit'',
      json_description = Some ''There and back again'', json_year = Some 1937,
      json_language = Some ''en'', json_author_id = Some 2, json_author = None,
      json_categories = Some []\<rparr>"

definition title_only_book_json :: book_json where
  "title_only_book_json =
     \<lparr>json_id_book = None, json_isbn = None, json_title = Some ''Hobbit'',
      json_description = None, json_year = None, json_language = None,
      json_author_id = None, json_author = None, json_categories = None\<rparr>"

text \<open>
  A request body for \<^verbatim>\<open>PATCH /authors/1\<close> with a name, and with the two keys that
  \<^verbatim>\<open>AuthorUpdateDTO\<close> excludes.
\<close>

definition name_only_author_json :: author_json where
  "name_only_author_json =
     \<lparr>json_id_author = Some 5, json_name_author = Some ''John Ronald Reuel Tolkien'',
      json_biography = None, json_date_of_birth = None, json_books = Some []\<rparr>"

text \<open>A store without rows, and a store with a second author.\<close>

definition empty_db :: db where
  "empty_db = \<lparr>authors = [], books = [], clients = [], loans = []\<rparr>"

definition second_author :: author where
  "second_author =
     \<lparr>id_author = Some 2, name_author = ''Christopher Tolkien'',
      biography = None, date_of_birth = None\<rparr>"

definition two_author_db :: db where
  "two_author_db =
     \<lparr>authors = [sample_author, second_author], books = [sample_book],
      clients = [sample_client], loans = []\<rparr>"

section \<open>Auxiliary facts\<close>

lemmas sample_defs = sample_db_def sample_author_def sample_book_def sample_client_def
  open_loan_def closed_loan_def t0_def empty_db_def second_author_def two_author_db_def

lemma find_map_replace:
  assumes "find (\<lambda>r. k r = Some i) rows = Some b" and "k b' = Some i"
  shows "find (\<lambda>r. k r = Some i) (map (\<lambda>r. if k r = k b' then b' else r) rows) = Some b'"
  using assms by (induction rows) (auto split: if_splits)

lemma fold_max_ge:
  "m \<le> fold (\<lambda>k m. case k of None \<Rightarrow> m | Some i \<Rightarrow> max i m) ks (m::int)"
proof (induction ks arbitrary: m)
  case Nil
  show ?case by simp
next
  case (Cons k ks)
  show ?case
  proof (cases k)
    case None
    with Cons show ?thesis by simp
  next
    case (Some i)
    have "max i m \<le> fold (\<lambda>k m. case k of None \<Rightarrow> m | Some i \<Rightarrow> max i m) ks (max i m)"
      by (rule Cons.IH)
    with Some show ?thesis by simp
  qed
qed

lemma fold_max_member:
  "Some i \<in> set ks \<Longrightarrow> i \<le> fold (\<lambda>k m. case k of None \<Rightarrow> m | Some i \<Rightarrow> max i m) ks (m::int)"
proof (induction ks arbitrary: m)
  case Nil
  then show ?case by simp
next
  case (Cons k ks)
  show ?case
  proof (cases "k = Some i")
    case True
    have "max i m \<le> fold (\<lambda>k m. case k of None \<Rightarrow> m | Some i \<Rightarrow> max i m) ks (max i m)"
      by (rule fold_max_ge)
    with True show ?thesis by simp
  next
    case False
    with Cons.prems have "Some i \<in> set ks" by simp
    then show ?thesis using Cons.IH by (cases k) simp_all
  qed
qed

lemma next_id_fresh: "Some i \<in> set ks \<Longrightarrow> i < next_id ks"
  using fold_max_member [of i ks 0] by (simp add: next_id_def)

lemma find_append_None:
  "find P xs = None \<Longrightarrow> find P (xs @ ys) = find P ys"
  by (induction xs) (auto split: if_splits)

lemma find_next_id:
  "find (\<lambda>l. id_loan l = Some (next_id (map id_loan ls))) ls = None"
proof -
  have "\<not> (\<exists>l \<in> set ls. id_loan l = Some (next_id (map id_loan ls)))"
  proof
    assume "\<exists>l \<in> set ls. id_loan l = Some (next_id (map id_loan ls))"
    then obtain l where "l \<in> set ls" and eq: "id_loan l = Some (next_id (map id_loan ls))"
      by blast
    then have "Some (next_id (map id_loan ls)) \<in> set (map id_loan ls)"
      by (metis image_eqI set_map)
    then have "next_id (map id_loan ls) < next_id (map id_loan ls)"
      by (rule next_id_fresh)
    then show False by simp
  qed
  then show ?thesis by (simp add: find_None_iff)
qed

lemma find_SomeD: "find P xs = Some x \<Longrightarrow> P x"
  by (induction xs) (auto split: if_splits)

lemma days_whole:
  assumes "0 < gap"
  shows "0 \<le> days gap \<and> days gap * us_per_day \<le> gap \<and> gap < (days gap + 1) * us_per_day
         \<and> days gap = sgn gap * (\<bar>gap\<bar> div us_per_day)"
proof -
  have 1: "0 \<le> gap div 86400000000"
    using assms by simp
  have 2: "gap div 86400000000 * 86400000000 \<le> gap"
    by simp
  have 3: "gap < (gap div 86400000000 + 1) * 86400000000"
    by (simp add: algebra_simps)
  from assms have 4: "sgn gap = 1" "\<bar>gap\<bar> = gap" by simp_all
  from 1 2 3 4 show ?thesis by (simp add: days_def us_per_day_def)
qed

lemma find_SomeD_set: "find P xs = Some x \<Longrightarrow> x \<in> set xs"
  by (induction xs) (auto split: if_splits)

section \<open>What the handlers raise\<close>

text \<open>
  A status that is given by position is lost: the exception has status 500. Given by
  keyword it would be the status of the exception.
\<close>

lemma HTTPException_init_positional:
  "HTTPException_init args d None = HTTPException 500 d"
  by (simp add: HTTPException_init_def)

lemma HTTPException_init_keyword:
  "c \<noteq> 0 \<Longrightarrow> HTTPException_init args d (Some c) = HTTPException c d"
  by (simp add: HTTPException_init_def)

text \<open>
  The error branches of the handlers, for every store and every argument: the detail is
  the one of the source, the status is 500 and the store is unchanged.
\<close>

lemma list_books_raises:
  "list_books s =
     (if books s = [] then (Inl (HTTPException 500 ''No hay libros disponibles''), s)
      else (Inr (books s), s))"
  by (simp add: list_books_def books_repo_list_def Let_def HTTPException_init_def)

lemma search_books_raises:
  "search_books matches s t =
     (if filter (\<lambda>b. matches t (title b)) (books s) = []
      then (Inl (HTTPException 500 (''No se encontraron libros con ese t'' @ [CHR 0xED] @ ''tulo'')), s)
      else (Inr (filter (\<lambda>b. matches t (title b)) (books s)), s))"
  by (simp add: search_books_def books_repo_search_by_title_def Let_def HTTPException_init_def)

lemma create_loan_missing_entity_raises:
  assumes "books_repo_get s b = None \<or> clients_repo_get s c = None"
  shows "create_loan s b c now = (Inl (HTTPException 500 ''El libro o el cliente no existe''), s)"
  using assms by (auto simp add: create_loan_def Let_def HTTPException_init_def)

lemma create_loan_available_raises:
  assumes "books_repo_get s b = Some bk" and "clients_repo_get s c = Some cl"
    and "books_repo_is_book_available s b"
  shows "create_loan s b c now =
     (Inl (HTTPException 500 (''No hay copias disponibles para pr'' @ [CHR 0xE9] @ ''stamo'')), s)"
  using assms by (simp add: create_loan_def Let_def HTTPException_init_def)

lemma return_loan_twice_raises:
  assumes "loans_repo_get s i = Some l" and "return_date l = Some r"
  shows "return_loan s i now = (Inl (HTTPException 500 ''El libro ya ha sido devuelto''), s)"
  using assms by (simp add: return_loan_def HTTPException_init_def)

text \<open>No handler of the loans and no handler of the books answers with another status.\<close>

lemma list_books_status:
  "fst (list_books s) = Inl (HTTPException c d) \<Longrightarrow> c = 500"
  by (simp add: list_books_raises split: if_splits)

lemma search_books_status:
  "fst (search_books matches s t) = Inl (HTTPException c d) \<Longrightarrow> c = 500"
  by (simp add: search_books_raises split: if_splits)

lemma create_loan_status:
  "fst (create_loan s b k now) = Inl (HTTPException c d) \<Longrightarrow> c = 500"
  by (auto simp add: create_loan_def Let_def HTTPException_init_def loans_repo_add_def
      split: if_splits)

lemma return_loan_status:
  "fst (return_loan s i now) = Inl (HTTPException c d) \<Longrightarrow> c = 500"
  by (auto simp add: return_loan_def Let_def HTTPException_init_def datetime_add_def
      loans_repo_update_def split: option.splits if_splits)

section \<open>Properties\<close>

text \<open>
  C8. The claim is that \<^verbatim>\<open>GET /books\<close> fails with a 404 error and the detail
  "No hay libros disponibles" exactly when the catalog is empty, and returns all books
  otherwise. The handler raises \<^verbatim>\<open>HTTPException(404, detail=...)\<close> with the 404 by
  position, so on the empty catalog the error has the detail of the claim and the status
  500, not 404. A catalog with a book is returned whole.
\<close>

theorem list_books_empty_catalog_status:
  "books_repo_list empty_db = []
   \<and> list_books empty_db = (Inl (HTTPException 500 ''No hay libros disponibles''), empty_db)
   \<and> fst (list_books empty_db) \<noteq> Inl (HTTPException 404 ''No hay libros disponibles'')
   \<and> list_books (sample_db []) = (Inr [sample_book], sample_db [])"
  by (simp add: list_books_def books_repo_list_def Let_def HTTPException_init_def
      empty_db_def sample_db_def)

text \<open>
  C1. The claim is that a loan request for a book and a client that both exist fails with
  a 400 error and the detail for which no copies are available (the message of the
  source, its accented e being \<open>CHR 0xE9\<close>) when \<^verbatim>\<open>is_book_available\<close> answers true,
  with no loan persisted, and creates the loan when it answers false. The handler raises
  \<^verbatim>\<open>HTTPException(400, detail=...)\<close> with the 400 by position: for book 1 and client
  1 of a store without loans the check answers true, the store is unchanged and the error
  has the detail of the claim, and its status is 500, not 400. With the open loan in the
  store the check answers false, and the loan that is returned and appended has key 2,
  the given book and client, the current time as loan date, no return date and no fine.
\<close>

theorem create_loan_available_status:
  "books_repo_get (sample_db []) 1 = Some sample_book
   \<and> clients_repo_get (sample_db []) 1 = Some sample_client
   \<and> books_repo_is_book_available (sample_db []) 1
   \<and> create_loan (sample_db []) 1 1 t0 =
       (Inl (HTTPException 500 (''No hay copias disponibles para pr'' @ [CHR 0xE9] @ ''stamo'')),
        sample_db [])
   \<and> fst (create_loan (sample_db []) 1 1 t0) \<noteq>
       Inl (HTTPException 400 (''No hay copias disponibles para pr'' @ [CHR 0xE9] @ ''stamo''))
   \<and> \<not> books_repo_is_book_available (sample_db [open_loan]) 1
   \<and> create_loan (sample_db [open_loan]) 1 1 (t0 + 5) =
       (Inr \<lparr>id_loan = Some 2, book_id = 1, client_id = 1, loan_date = t0 + 5,
             return_date = None, fine = None\<rparr>,
        sample_db [open_loan,
          \<lparr>id_loan = Some 2, book_id = 1, client_id = 1, loan_date = t0 + 5,
           return_date = None, fine = None\<rparr>])"
  by (simp add: create_loan_def Let_def HTTPException_init_def books_repo_get_def
      clients_repo_get_def books_repo_is_book_available_def loans_repo_add_def Loan_def
      next_id_def sample_defs)

text \<open>
  C4. The claim is that a loan request whose book or whose client does not exist fails
  with a 404 error and the detail "El libro o el cliente no existe", with no loan
  persisted. The handler raises \<^verbatim>\<open>HTTPException(404, detail=...)\<close> with the 404 by
  position: for book 2, which is not in the store, and for client 7, which is not in the
  store, the store is unchanged and the error has the detail of the claim, and its status
  is 500, not 404.
\<close>

theorem create_loan_missing_entity_status:
  "books_repo_get (sample_db []) 2 = None
   \<and> create_loan (sample_db []) 2 1 t0 =
       (Inl (HTTPException 500 ''El libro o el cliente no existe''), sample_db [])
   \<and> fst (create_loan (sample_db []) 2 1 t0) \<noteq>
       Inl (HTTPException 404 ''El libro o el cliente no existe'')
   \<and> clients_repo_get (sample_db []) 7 = None
   \<and> create_loan (sample_db []) 1 7 t0 =
       (Inl (HTTPException 500 ''El libro o el cliente no existe''), sample_db [])
   \<and> fst (create_loan (sample_db []) 1 7 t0) \<noteq>
       Inl (HTTPException 404 ''El libro o el cliente no existe'')"
  by (simp add: create_loan_def Let_def HTTPException_init_def books_repo_get_def
      clients_repo_get_def sample_defs)

text \<open>
  C5. When creation proceeds (book and client exist, the availability check answered
  false), the loan that is returned and persisted has the given book and client, the
  current timestamp as its loan date, no return date and no fine. Its key is new, and it
  can be read back under that key.
\<close>

theorem create_loan_new_loan:
  assumes "books_repo_get s b = Some bk" and "clients_repo_get s c = Some cl"
    and "\<not> books_repo_is_book_available s b"
  shows "let k = next_id (map id_loan (loans s));
             l = \<lparr>id_loan = Some k, book_id = b, client_id = c, loan_date = now,
                  return_date = None, fine = None\<rparr>
         in create_loan s b c now = (Inr l, s\<lparr>loans := loans s @ [l]\<rparr>)
          \<and> loans_repo_get s k = None
          \<and> loans_repo_get (snd (create_loan s b c now)) k = Some l"
proof -
  define k where "k = next_id (map id_loan (loans s))"
  define l where "l = \<lparr>id_loan = Some k, book_id = b, client_id = c, loan_date = now,
                  return_date = None, fine = (None :: real option)\<rparr>"
  have r: "create_loan s b c now = (Inr l, s\<lparr>loans := loans s @ [l]\<rparr>)"
    using assms by (simp add: create_loan_def loans_repo_add_def Loan_def Let_def k_def l_def)
  have fresh: "loans_repo_get s k = None"
    unfolding loans_repo_get_def k_def by (rule find_next_id)
  then have "loans_repo_get (s\<lparr>loans := loans s @ [l]\<rparr>) k = Some l"
    by (simp add: loans_repo_get_def find_append_None l_def)
  with r fresh show ?thesis by (simp add: Let_def k_def l_def)
qed

theorem create_loan_new_loan_witness:
  "\<not> books_repo_is_book_available (sample_db [open_loan]) 1
   \<and> create_loan (sample_db [open_loan]) 1 1 (t0 + 5) =
       (Inr \<lparr>id_loan = Some 2, book_id = 1, client_id = 1, loan_date = t0 + 5,
             return_date = None, fine = None\<rparr>,
        sample_db [open_loan,
          \<lparr>id_loan = Some 2, book_id = 1, client_id = 1, loan_date = t0 + 5,
           return_date = None, fine = None\<rparr>])"
proof -
  have b: "books_repo_get (sample_db [open_loan]) 1 = Some sample_book"
    by (simp add: books_repo_get_def sample_defs)
  have c: "clients_repo_get (sample_db [open_loan]) 1 = Some sample_client"
    by (simp add: clients_repo_get_def sample_defs)
  have nav: "\<not> books_repo_is_book_available (sample_db [open_loan]) 1"
    by (simp add: books_repo_is_book_available_def sample_defs)
  have k: "next_id (map id_loan (loans (sample_db [open_loan]))) = 2"
    by (simp add: next_id_def sample_defs)
  from create_loan_new_loan [OF b c nav, where now = "t0 + 5"] nav show ?thesis
    by (simp add: Let_def k) (simp add: sample_db_def)
qed

text \<open>
  C2. Returning an existing loan that has not been returned: the due date is the loan
  date plus 7 days (a representable datetime is assumed; the loan date would have to lie
  in the last week of the year 9999 for it not to be). The loan is stored and returned
  with the return timestamp. When the return timestamp is strictly after the due date,
  the fine is set to the day count of the gap times 0.5, where the day count is the
  number of whole days in the gap, which is the quotient truncated toward zero. Otherwise
  the fine is left as it was, absent for a loan that never had one. A return exactly 7
  days after the loan date leaves the fine alone, and a return 9 days after the loan date
  sets it to 1.0.
\<close>

theorem return_loan_fine:
  assumes "loans_repo_get s i = Some l" and "return_date l = None"
    and "valid_datetime (loan_date l + timedelta_days 7)"
  shows "let due = loan_date l + timedelta_days 7;
             gap = now - due;
             d = days gap
         in datetime_add (loan_date l) (timedelta_days 7) = Inr due
          \<and> (\<exists>l' s'. return_loan s i now = (Inr l', s')
                \<and> loans_repo_get s' i = Some l'
                \<and> return_date l' = Some now
                \<and> (due < now \<longrightarrow>
                      fine l' = Some (real_of_int d * 0.5)
                      \<and> 0 \<le> d \<and> d * us_per_day \<le> gap \<and> gap < (d + 1) * us_per_day
                      \<and> d = sgn gap * (\<bar>gap\<bar> div us_per_day))
                \<and> (now \<le> due \<longrightarrow> fine l' = fine l)
                \<and> (now = loan_date l + timedelta_days 7 \<longrightarrow> fine l' = fine l)
                \<and> (now = loan_date l + timedelta_days 9 \<longrightarrow> fine l' = Some 1.0))"
proof -
  define due where "due = loan_date l + timedelta_days 7"
  define gap where "gap = now - due"
  define l' where "l' = (if due < now then l\<lparr>return_date := Some now, fine := Some (real_of_int (days gap) * 0.5)\<rparr>
                         else l\<lparr>return_date := Some now\<rparr>)"
  define s' where "s' = snd (loans_repo_update s l')"
  have add: "datetime_add (loan_date l) (timedelta_days 7) = Inr due"
    using assms(3) by (simp add: datetime_add_def due_def)
  have key: "id_loan l' = Some i"
    using find_SomeD [OF assms(1) [unfolded loans_repo_get_def]] by (simp add: l'_def)
  have run: "return_loan s i now = (Inr l', s')"
    using assms(1,2) add
    by (simp add: return_loan_def Let_def datetime_sub_def loans_repo_update_def
        l'_def s'_def gap_def due_def)
  have stored: "loans_repo_get s' i = Some l'"
    using find_map_replace [OF assms(1) [unfolded loans_repo_get_def] key]
    by (simp add: s'_def loans_repo_update_def loans_repo_get_def)
  have ret: "return_date l' = Some now" by (simp add: l'_def)
  have late: "fine l' = Some (real_of_int (days gap) * 0.5)
      \<and> 0 \<le> days gap \<and> days gap * us_per_day \<le> gap \<and> gap < (days gap + 1) * us_per_day
      \<and> days gap = sgn gap * (\<bar>gap\<bar> div us_per_day)" if "due < now"
  proof -
    from that have "0 < gap" by (simp add: gap_def)
    have "fine l' = Some (real_of_int (days gap) * 0.5)"
      using that by (simp add: l'_def)
    with days_whole [OF \<open>0 < gap\<close>] show ?thesis by blast
  qed
  have early: "fine l' = fine l" if "now \<le> due"
    using that by (simp add: l'_def)
  have seven: "fine l' = fine l" if "now = loan_date l + timedelta_days 7"
    using that by (simp add: l'_def due_def)
  have nine: "fine l' = Some 1.0" if "now = loan_date l + timedelta_days 9"
    using that by (simp add: l'_def due_def gap_def days_def timedelta_days_def us_per_day_def)
  from add run stored ret late early seven nine show ?thesis
    unfolding Let_def due_def [symmetric] gap_def [symmetric] by blast
qed

theorem return_loan_fine_witness:
  "loans_repo_get (sample_db [open_loan]) 1 = Some open_loan
   \<and> return_date open_loan = None
   \<and> valid_datetime (loan_date open_loan + timedelta_days 7)
   \<and> (\<exists>l' s'. return_loan (sample_db [open_loan]) 1 (t0 + timedelta_days 9) = (Inr l', s')
         \<and> fine l' = Some 1.0)
   \<and> fst (return_loan (sample_db [open_loan]) 1 (t0 + timedelta_days 7)) =
       Inr (open_loan\<lparr>return_date := Some (t0 + timedelta_days 7)\<rparr>)
   \<and> fst (return_loan (sample_db [open_loan]) 1 (t0 + timedelta_days 10 - 1)) =
       Inr (open_loan\<lparr>return_date := Some (t0 + timedelta_days 10 - 1), fine := Some 1.0\<rparr>)"
proof -
  have g: "loans_repo_get (sample_db [open_loan]) 1 = Some open_loan"
    by (simp add: loans_repo_get_def sample_defs)
  have r: "return_date open_loan = None"
    by (simp add: open_loan_def)
  have v: "valid_datetime (loan_date open_loan + timedelta_days 7)"
    by (simp add: valid_datetime_def datetime_max_def timedelta_days_def us_per_day_def sample_defs)
  have ld: "loan_date open_loan = t0"
    by (simp add: open_loan_def)
  from return_loan_fine [OF g r v, where now = "t0 + timedelta_days 9"]
  have nine: "\<exists>l' s'. return_loan (sample_db [open_loan]) 1 (t0 + timedelta_days 9) = (Inr l', s')
         \<and> fine l' = Some 1.0"
    unfolding Let_def ld by blast
  have seven: "fst (return_loan (sample_db [open_loan]) 1 (t0 + timedelta_days 7)) =
       Inr (open_loan\<lparr>return_date := Some (t0 + timedelta_days 7)\<rparr>)"
    by (simp add: return_loan_def Let_def loans_repo_get_def loans_repo_update_def datetime_add_def
        valid_datetime_def datetime_max_def timedelta_days_def us_per_day_def sample_defs)
  have late: "fst (return_loan (sample_db [open_loan]) 1 (t0 + timedelta_days 10 - 1)) =
       Inr (open_loan\<lparr>return_date := Some (t0 + timedelta_days 10 - 1), fine := Some 1.0\<rparr>)"
    by (simp add: return_loan_def Let_def loans_repo_get_def loans_repo_update_def datetime_add_def
        datetime_sub_def days_def
        valid_datetime_def datetime_max_def timedelta_days_def us_per_day_def sample_defs)
  from g r v nine seven late show ?thesis by blast
qed

text \<open>
  C3. The claim is that returning a loan whose return date is already set fails with a
  400 error and the detail "El libro ya ha sido devuelto", and leaves the stored return
  date and fine as they were. The handler raises \<^verbatim>\<open>HTTPException(400, detail=...)\<close>
  with the 400 by position: for the returned loan of the store, the store is unchanged,
  the loan is still stored with its return date and its fine, and the error has the
  detail of the claim, and its status is 500, not 400.
\<close>

theorem return_loan_twice_status:
  "loans_repo_get (sample_db [closed_loan]) 1 = Some closed_loan
   \<and> return_date closed_loan = Some (t0 + timedelta_days 9)
   \<and> return_loan (sample_db [closed_loan]) 1 (t0 + timedelta_days 30) =
       (Inl (HTTPException 500 ''El libro ya ha sido devuelto''), sample_db [closed_loan])
   \<and> fst (return_loan (sample_db [closed_loan]) 1 (t0 + timedelta_days 30)) \<noteq>
       Inl (HTTPException 400 ''El libro ya ha sido devuelto'')
   \<and> loans_repo_get (snd (return_loan (sample_db [closed_loan]) 1 (t0 + timedelta_days 30))) 1
       = Some closed_loan"
  by (simp add: return_loan_def HTTPException_init_def loans_repo_get_def sample_defs)

text \<open>
  C10. A return that is late by less than one whole day (strictly after the due date,
  strictly before the due date plus one day) has an overdue day count of 0, and the fine
  of the returned loan is set to 0.0, not left absent: a fine that is present need not be
  a positive penalty.
\<close>

theorem return_loan_zero_fine:
  assumes "loans_repo_get s i = Some l" and "return_date l = None"
    and "valid_datetime (loan_date l + timedelta_days 7)"
    and "loan_date l + timedelta_days 7 < now"
    and "now < loan_date l + timedelta_days 7 + timedelta_days 1"
  shows "days (datetime_sub now (loan_date l + timedelta_days 7)) = 0
       \<and> fst (return_loan s i now) = Inr (l\<lparr>return_date := Some now, fine := Some 0.0\<rparr>)"
proof -
  define due where "due = loan_date l + timedelta_days 7"
  have add: "datetime_add (loan_date l) (timedelta_days 7) = Inr due"
    using assms(3) by (simp add: datetime_add_def due_def)
  have "0 < now - due" and "now - due < 86400000000"
    using assms(4,5) by (simp_all add: due_def timedelta_days_def us_per_day_def)
  then have d: "days (datetime_sub now due) = 0"
    by (simp add: days_def datetime_sub_def us_per_day_def)
  have "fst (return_loan s i now) = Inr (l\<lparr>return_date := Some now, fine := Some 0.0\<rparr>)"
    using assms(1,2,4) add d
    by (simp add: return_loan_def Let_def loans_repo_update_def due_def)
  with d show ?thesis by (simp add: due_def)
qed

theorem return_loan_zero_fine_witness:
  "loans_repo_get (sample_db [open_loan]) 1 = Some open_loan
   \<and> return_date open_loan = None
   \<and> valid_datetime (loan_date open_loan + timedelta_days 7)
   \<and> loan_date open_loan + timedelta_days 7 < t0 + timedelta_days 7 + 1
   \<and> t0 + timedelta_days 7 + 1 < loan_date open_loan + timedelta_days 7 + timedelta_days 1
   \<and> fst (return_loan (sample_db [open_loan]) 1 (t0 + timedelta_days 7 + 1)) =
       Inr (open_loan\<lparr>return_date := Some (t0 + timedelta_days 7 + 1), fine := Some 0.0\<rparr>)"
proof -
  have g: "loans_repo_get (sample_db [open_loan]) 1 = Some open_loan"
    by (simp add: loans_repo_get_def sample_defs)
  have r: "return_date open_loan = None"
    by (simp add: open_loan_def)
  have v: "valid_datetime (loan_date open_loan + timedelta_days 7)"
    by (simp add: valid_datetime_def datetime_max_def timedelta_days_def us_per_day_def sample_defs)
  have lo: "loan_date open_loan + timedelta_days 7 < t0 + timedelta_days 7 + 1"
    by (simp add: open_loan_def)
  have hi: "t0 + timedelta_days 7 + 1 < loan_date open_loan + timedelta_days 7 + timedelta_days 1"
    by (simp add: open_loan_def timedelta_days_def us_per_day_def)
  from return_loan_zero_fine [OF g r v lo hi] g r v lo hi show ?thesis by blast
qed

text \<open>
  C9. The claim is that a title search whose repository match is empty fails with a 404
  error and the detail "No se encontraron libros con ese titulo" (the message of the
  source, its accented i being \<open>CHR 0xED\<close>), and that a search with a match returns
  exactly the matching books. The handler raises \<^verbatim>\<open>HTTPException(404, detail=...)\<close>
  with the 404 by position: for a title that no book of the store contains, the error
  has the detail of the claim and the status 500, not 404. A title that the book of the
  store contains returns that book.
\<close>

theorem search_books_no_match_status:
  "books_repo_search_by_title title_contains (sample_db []) ''Dune'' = []
   \<and> search_books title_contains (sample_db []) ''Dune'' =
       (Inl (HTTPException 500 (''No se encontraron libros con ese t'' @ [CHR 0xED] @ ''tulo'')),
        sample_db [])
   \<and> fst (search_books title_contains (sample_db []) ''Dune'') \<noteq>
       Inl (HTTPException 404 (''No se encontraron libros con ese t'' @ [CHR 0xED] @ ''tulo''))
   \<and> books_repo_search_by_title title_contains (sample_db []) ''Hobbit'' = [sample_book]
   \<and> search_books title_contains (sample_db []) ''Hobbit'' = (Inr [sample_book], sample_db [])"
proof -
  have y: "title_contains ''Hobbit'' (title sample_book)"
    unfolding sample_book_def by code_simp
  have n: "\<not> title_contains ''Dune'' (title sample_book)"
    unfolding sample_book_def by code_simp
  from y n show ?thesis
    by (simp add: search_books_def books_repo_search_by_title_def Let_def
        HTTPException_init_def sample_db_def)
qed

text \<open>
  C7. \<^verbatim>\<open>PATCH /authors/{author_id}\<close> on an existing author: every field that the body
  supplies is applied, every field that it does not supply keeps its value, and the
  updated author is stored and returned. A body that supplies neither biography nor date
  of birth (a name only, say) leaves both unchanged. The id of the author and the books
  of the author are never modified, whatever the body holds under those keys.
\<close>

theorem update_author_partial:
  assumes "authors_repo_get s i = Some a"
  shows "\<exists>a' s'. patch_author s i j = (Inr a', s')
       \<and> authors_repo_get s' i = Some a'
       \<and> name_author a' = (case json_name_author j of None \<Rightarrow> name_author a | Some v \<Rightarrow> v)
       \<and> biography a' = (case json_biography j of None \<Rightarrow> biography a | Some v \<Rightarrow> v)
       \<and> date_of_birth a' = (case json_date_of_birth j of None \<Rightarrow> date_of_birth a | Some v \<Rightarrow> v)
       \<and> (json_biography j = None \<and> json_date_of_birth j = None \<longrightarrow>
            biography a' = biography a \<and> date_of_birth a' = date_of_birth a)
       \<and> id_author a' = id_author a
       \<and> books s' = books s
       \<and> author_books s' a' = author_books s a"
proof -
  define d where "d = \<lparr>data_name_author = json_name_author j,
          data_biography = json_biography j,
          data_date_of_birth = json_date_of_birth j\<rparr>"
  define a' where "a' = update_instance_author d a"
  define s' where "s' = snd (authors_repo_update s a')"
  have key: "id_author a' = Some i"
    using find_SomeD [OF assms [unfolded authors_repo_get_def]]
    by (simp add: a'_def update_instance_author_def)
  have run: "patch_author s i j = (Inr a', s')"
    using assms
    by (simp add: patch_author_def AuthorUpdateDTO_def update_author_def Let_def
        authors_repo_update_def a'_def s'_def d_def)
  have stored: "authors_repo_get s' i = Some a'"
    using find_map_replace [OF assms [unfolded authors_repo_get_def] key]
    by (simp add: s'_def authors_repo_update_def authors_repo_get_def)
  have fields: "name_author a' = (case json_name_author j of None \<Rightarrow> name_author a | Some v \<Rightarrow> v)"
    "biography a' = (case json_biography j of None \<Rightarrow> biography a | Some v \<Rightarrow> v)"
    "date_of_birth a' = (case json_date_of_birth j of None \<Rightarrow> date_of_birth a | Some v \<Rightarrow> v)"
    "id_author a' = id_author a"
    by (simp_all add: a'_def update_instance_author_def d_def)
  have frame: "books s' = books s"
    by (simp add: s'_def authors_repo_update_def)
  then have rel: "author_books s' a' = author_books s a"
    using fields(4) by (simp add: author_books_def)
  from fields(2,3) have only: "biography a' = biography a \<and> date_of_birth a' = date_of_birth a"
    if "json_biography j = None \<and> json_date_of_birth j = None"
    using that by simp
  from run stored fields frame rel only show ?thesis by blast
qed

theorem update_author_partial_witness:
  "authors_repo_get (sample_db []) 1 = Some sample_author
   \<and> patch_author (sample_db []) 1 name_only_author_json =
       (Inr (sample_author\<lparr>name_author := ''John Ronald Reuel Tolkien''\<rparr>),
        (sample_db [])\<lparr>authors := [sample_author\<lparr>name_author := ''John Ronald Reuel Tolkien''\<rparr>]\<rparr>)"
proof -
  have g: "authors_repo_get (sample_db []) 1 = Some sample_author"
    by (simp add: authors_repo_get_def sample_defs)
  from update_author_partial [OF g, of name_only_author_json]
  obtain a' s' where run: "patch_author (sample_db []) 1 name_only_author_json = (Inr a', s')"
    and stored: "authors_repo_get s' 1 = Some a'"
    and bio: "biography a' = biography sample_author"
    and dob: "date_of_birth a' = date_of_birth sample_author"
    by (auto simp add: name_only_author_json_def)
  have "patch_author (sample_db []) 1 name_only_author_json =
       (Inr (sample_author\<lparr>name_author := ''John Ronald Reuel Tolkien''\<rparr>),
        (sample_db [])\<lparr>authors := [sample_author\<lparr>name_author := ''John Ronald Reuel Tolkien''\<rparr>]\<rparr>)"
    by (simp add: patch_author_def AuthorUpdateDTO_def update_author_def Let_def
        authors_repo_update_def authors_repo_get_def update_instance_author_def
        name_only_author_json_def sample_defs)
  with g run show ?thesis by simp
qed

text \<open>
  C6. As stated the claim does not hold: the body of \<^verbatim>\<open>PATCH /books/1\<close> below names
  author 2, who is in the store, and the book of author 1 comes back, and is stored, as a
  book of author 2.
\<close>

theorem update_book_author_reference_counterexample:
  "books_repo_get two_author_db 1 = Some sample_book
   \<and> authors_repo_get two_author_db 1 = Some sample_author
   \<and> authors_repo_get two_author_db 2 = Some second_author
   \<and> fst (patch_book two_author_db 1 full_book_json) = Inr (sample_book\<lparr>author_id := 2\<rparr>)
   \<and> author_id (sample_book\<lparr>author_id := 2\<rparr>) \<noteq> author_id sample_book
   \<and> books_repo_get (snd (patch_book two_author_db 1 full_book_json)) 1
       = Some (sample_book\<lparr>author_id := 2\<rparr>)"
  by (simp add: patch_book_def BookWriteDTO_def update_book_def Let_def books_repo_get_def
      authors_repo_get_def books_repo_update_def update_instance_book_def full_book_json_def
      sample_defs)

text \<open>
  C6, amended. On an existing book the handler applies exactly the entries of the
  validated request data (isbn, title, description, year, language, author_id,
  categories) and keeps every attribute that has no entry; the id of the book is never
  modified; the updated book is stored and returned. A body that \<^verbatim>\<open>BookWriteDTO\<close>
  accepts reaches the handler with the values it supplied for these fields and without
  its \<^verbatim>\<open>id\<close> and \<^verbatim>\<open>author\<close> keys, so the author reference of the book is what the
  body gave as \<^verbatim>\<open>author_id\<close>.
\<close>

theorem update_book_applies_data:
  assumes "books_repo_get s i = Some b"
  shows "(\<exists>b' s'. update_book s i d = (Inr b', s')
          \<and> books_repo_get s' i = Some b'
          \<and> id_book b' = id_book b
          \<and> isbn b' = (case data_isbn d of None \<Rightarrow> isbn b | Some v \<Rightarrow> v)
          \<and> title b' = (case data_title d of None \<Rightarrow> title b | Some v \<Rightarrow> v)
          \<and> description b' = (case data_description d of None \<Rightarrow> description b | Some v \<Rightarrow> v)
          \<and> year b' = (case data_year d of None \<Rightarrow> year b | Some v \<Rightarrow> v)
          \<and> language b' = (case data_language d of None \<Rightarrow> language b | Some v \<Rightarrow> v)
          \<and> author_id b' = (case data_author_id d of None \<Rightarrow> author_id b | Some v \<Rightarrow> v)
          \<and> categories b' = (case data_categories d of None \<Rightarrow> categories b | Some v \<Rightarrow> v))
       \<and> (BookWriteDTO j = Inr d \<longrightarrow>
            patch_book s i j = update_book s i d
            \<and> data_isbn d = json_isbn j \<and> data_title d = json_title j
            \<and> data_description d = json_description j \<and> data_year d = json_year j
            \<and> data_language d = json_language j \<and> data_author_id d = json_author_id j
            \<and> data_categories d = json_categories j)"
proof -
  define b' where "b' = update_instance_book d b"
  define s' where "s' = snd (books_repo_update s b')"
  have key: "id_book b' = Some i"
    using find_SomeD [OF assms [unfolded books_repo_get_def]]
    by (simp add: b'_def update_instance_book_def)
  have run: "update_book s i d = (Inr b', s')"
    using assms
    by (simp add: update_book_def Let_def books_repo_update_def b'_def s'_def)
  have stored: "books_repo_get s' i = Some b'"
    using find_map_replace [OF assms [unfolded books_repo_get_def] key]
    by (simp add: s'_def books_repo_update_def books_repo_get_def)
  have fields: "id_book b' = id_book b"
    "isbn b' = (case data_isbn d of None \<Rightarrow> isbn b | Some v \<Rightarrow> v)"
    "title b' = (case data_title d of None \<Rightarrow> title b | Some v \<Rightarrow> v)"
    "description b' = (case data_description d of None \<Rightarrow> description b | Some v \<Rightarrow> v)"
    "year b' = (case data_year d of None \<Rightarrow> year b | Some v \<Rightarrow> v)"
    "language b' = (case data_language d of None \<Rightarrow> language b | Some v \<Rightarrow> v)"
    "author_id b' = (case data_author_id d of None \<Rightarrow> author_id b | Some v \<Rightarrow> v)"
    "categories b' = (case data_categories d of None \<Rightarrow> categories b | Some v \<Rightarrow> v)"
    by (simp_all add: b'_def update_instance_book_def)
  have route: "patch_book s i j = update_book s i d
            \<and> data_isbn d = json_isbn j \<and> data_title d = json_title j
            \<and> data_description d = json_description j \<and> data_year d = json_year j
            \<and> data_language d = json_language j \<and> data_author_id d = json_author_id j
            \<and> data_categories d = json_categories j" if "BookWriteDTO j = Inr d"
  proof -
    from that have "patch_book s i j = update_book s i d"
      by (simp add: patch_book_def)
    moreover from that have "d = \<lparr>data_isbn = json_isbn j,
                data_title = json_title j,
                data_description = json_description j,
                data_year = json_year j,
                data_language = json_language j,
                data_author_id = json_author_id j,
                data_categories = json_categories j\<rparr>"
      by (simp add: BookWriteDTO_def split: if_splits)
    then have "data_isbn d = json_isbn j \<and> data_title d = json_title j
            \<and> data_description d = json_description j \<and> data_year d = json_year j
            \<and> data_language d = json_language j \<and> data_author_id d = json_author_id j
            \<and> data_categories d = json_categories j"
      by simp
    ultimately show ?thesis by blast
  qed
  from run stored fields have "\<exists>b' s'. update_book s i d = (Inr b', s')
          \<and> books_repo_get s' i = Some b'
          \<and> id_book b' = id_book b
          \<and> isbn b' = (case data_isbn d of None \<Rightarrow> isbn b | Some v \<Rightarrow> v)
          \<and> title b' = (case data_title d of None \<Rightarrow> title b | Some v \<Rightarrow> v)
          \<and> description b' = (case data_description d of None \<Rightarrow> description b | Some v \<Rightarrow> v)
          \<and> year b' = (case data_year d of None \<Rightarrow> year b | Some v \<Rightarrow> v)
          \<and> language b' = (case data_language d of None \<Rightarrow> language b | Some v \<Rightarrow> v)
          \<and> author_id b' = (case data_author_id d of None \<Rightarrow> author_id b | Some v \<Rightarrow> v)
          \<and> categories b' = (case data_categories d of None \<Rightarrow> categories b | Some v \<Rightarrow> v)"
    by blast
  with route show ?thesis by blast
qed

theorem update_book_applies_data_witness:
  "books_repo_get (sample_db []) 1 = Some sample_book
   \<and> BookWriteDTO (full_book_json\<lparr>json_id_book := Some 9, json_title := Some ''Hobbit''\<rparr>)
       = Inr \<lparr>data_isbn = Some ''9780261102217'', data_title = Some ''Hobbit'',
              data_description = Some ''There and back again'', data_year = Some 1937,
              data_language = Some ''en'', data_author_id = Some 2, data_categories = Some []\<rparr>
   \<and> patch_book (sample_db []) 1 (full_book_json\<lparr>json_id_book := Some 9, json_title := Some ''Hobbit''\<rparr>)
       = (Inr (sample_book\<lparr>title := ''Hobbit'', author_id := 2\<rparr>),
          (sample_db [])\<lparr>books := [sample_book\<lparr>title := ''Hobbit'', author_id := 2\<rparr>]\<rparr>)"
proof -
  let ?j = "full_book_json\<lparr>json_id_book := Some 9, json_title := Some ''Hobbit''\<rparr>"
  let ?d = "\<lparr>data_isbn = Some ''9780261102217'', data_title = Some ''Hobbit'',
              data_description = Some ''There and back again'', data_year = Some 1937,
              data_language = Some ''en'', data_author_id = Some 2, data_categories = Some []\<rparr>"
  have g: "books_repo_get (sample_db []) 1 = Some sample_book"
    by (simp add: books_repo_get_def sample_defs)
  have dto: "BookWriteDTO ?j = Inr ?d"
    by (simp add: BookWriteDTO_def full_book_json_def)
  from update_book_applies_data [OF g, of ?d ?j] dto
  have route: "patch_book (sample_db []) 1 ?j = update_book (sample_db []) 1 ?d"
    by blast
  have "update_book (sample_db []) 1 ?d
       = (Inr (sample_book\<lparr>title := ''Hobbit'', author_id := 2\<rparr>),
          (sample_db [])\<lparr>books := [sample_book\<lparr>title := ''Hobbit'', author_id := 2\<rparr>]\<rparr>)"
    by (simp add: update_book_def Let_def books_repo_get_def
        books_repo_update_def update_instance_book_def sample_defs)
  with g dto route show ?thesis by simp
qed

section \<open>Further facts about the routes\<close>

text \<open>
  \<^verbatim>\<open>BookWriteDTO\<close> is not partial, unlike \<^verbatim>\<open>AuthorUpdateDTO\<close>: a body that holds a
  title only is refused before the handler runs, where the same kind of body updates an
  author.
\<close>

lemma patch_book_title_only_rejected:
  "patch_book (sample_db []) 1 title_only_book_json = (Inl ValidationError, sample_db [])"
  by (simp add: patch_book_def BookWriteDTO_def title_only_book_json_def)

text \<open>
  The due date of a loan made in the last week of the year 9999 is no datetime: the
  addition raises, and the return fails with the store unchanged.
\<close>

lemma return_loan_due_date_overflow:
  assumes "loans_repo_get s i = Some l" and "return_date l = None"
    and "\<not> valid_datetime (loan_date l + timedelta_days 7)"
  shows "return_loan s i now = (Inl OverflowError, s)"
  using assms by (simp add: return_loan_def Let_def datetime_add_def)

text \<open>
  Both loan handlers keep the store such that a loan without a return date has no fine.
  In such a store the fine that a return on time leaves as it was is an absent fine.
\<close>

lemma create_loan_unreturned_without_fine:
  assumes "unreturned_without_fine s"
  shows "unreturned_without_fine (snd (create_loan s b c now))"
  using assms
  by (simp add: create_loan_def Let_def loans_repo_add_def Loan_def unreturned_without_fine_def)

lemma return_loan_unreturned_without_fine:
  assumes "unreturned_without_fine s"
  shows "unreturned_without_fine (snd (return_loan s i now))"
proof (cases "loans_repo_get s i")
  case None
  with assms show ?thesis by (simp add: return_loan_def)
next
  case (Some l)
  show ?thesis
  proof (cases "return_date l = None \<and> valid_datetime (loan_date l + timedelta_days 7)")
    case False
    with Some assms show ?thesis
      by (auto simp add: return_loan_def Let_def datetime_add_def)
  next
    case True
    from assms have "\<forall>r \<in> set (loans s). return_date r = None \<longrightarrow> fine r = None"
      by (simp add: unreturned_without_fine_def list_all_iff)
    with Some True show ?thesis
      by (auto simp add: return_loan_def Let_def datetime_add_def loans_repo_update_def
          unreturned_without_fine_def list_all_iff)
  qed
qed

lemma unreturned_loan_has_no_fine:
  assumes "unreturned_without_fine s" and "loans_repo_get s i = Some l" and "return_date l = None"
  shows "fine l = None"
proof -
  from assms(2) have "l \<in> set (loans s)"
    unfolding loans_repo_get_def by (rule find_SomeD_set)
  with assms(1,3) show ?thesis
    by (simp add: unreturned_without_fine_def list_all_iff)
qed

end
